theory Spec2Isabelle
  imports Main
begin

section \<open>Data of the editor commands (src/commands/editor.ts)\<close>

text \<open>
  A candidate file is the \<^verbatim>\<open>{ filename, content }\<close> object that the command
  adapters push into \<^verbatim>\<open>files\<close> (editor.ts, lines 125 and 139, and line 163).
\<close>

record GistFile =
  filename :: string
  content :: string

text \<open>
  A Gist of the store. The commands read \<^verbatim>\<open>gist.id\<close> and \<^verbatim>\<open>gist.files\<close> only;
  \<^verbatim>\<open>files\<close> is an object keyed by file name, kept here as an association list in
  the order in which \<^verbatim>\<open>Object.keys\<close> enumerates it. The field \<^verbatim>\<open>id\<close> is
  written \<open>gist_id\<close>, since \<open>id\<close> is the identity function of HOL.
\<close>

record Gist =
  gist_id :: string
  files :: "(string \<times> GistFile) list"

definition Object_keys :: "(string \<times> 'a) list \<Rightarrow> string list" where
  "Object_keys obj = map fst obj"

text \<open>
  An entry of the quick pick of \<^verbatim>\<open>promptForGistSelection\<close>. The two fixed entries
  carry \<^verbatim>\<open>label\<close> and \<^verbatim>\<open>alwaysShow\<close>; the entries made from Gists carry
  \<^verbatim>\<open>label\<close>, \<^verbatim>\<open>description\<close> and \<^verbatim>\<open>id\<close>. A field that the object
  literal does not set reads \<^verbatim>\<open>undefined\<close>, which is \<open>None\<close> here.
\<close>

record GistQuickPickItem =
  label :: string
  description :: "string option"
  item_id :: "string option"
  alwaysShow :: "bool option"

text \<open>
  The helpers imported from \<^verbatim>\<open>../utils\<close> are not part of the given sources; they
  are parameters of the model, collected in one record. \<open>'uri\<close> is the type of
  \<^verbatim>\<open>Uri\<close> values and \<open>'bytes\<close> the type of byte arrays.
\<close>

record ('uri, 'bytes) utils =
  getGistLabel :: "Gist \<Rightarrow> string"
  getGistDescription :: "Gist \<Rightarrow> string"
  fileNameToUri :: "string \<Rightarrow> string \<Rightarrow> 'uri"
  stringToByteArray :: "string \<Rightarrow> 'bytes"
  byteArrayToString :: "'bytes \<Rightarrow> string"
  decodeDirectoryName :: "string \<Rightarrow> string"
  getFileExtension :: "string \<Rightarrow> string"

text \<open>The entry of the paste quick pick (editor.ts, lines 175 to 180).\<close>

record PasteQuickPickItem =
  paste_label :: string
  paste_description :: string
  paste_id :: string
  paste_files :: "string list"

datatype error = TypeError | FileSystemError

text \<open>
  What a command asks of the host, in the order in which it asks. Calls of the store
  (\<^verbatim>\<open>newGist\<close>) and of the virtual file system are effects too; the arguments
  are the arguments of the call.
\<close>

datatype ('uri, 'bytes) effect =
    QuickPickShow "GistQuickPickItem list"
  | QuickPickHide
  | ShowInputBox string
  | WithProgress string
  | WriteFile 'uri 'bytes
  | NewGist "GistFile list" bool "string option" bool
  | ShowQuickPickGists "PasteQuickPickItem list"
  | ShowQuickPickFiles "string list"
  | ReadFile 'uri
  | EditInsert string

fun isWriteFile :: "('uri, 'bytes) effect \<Rightarrow> bool" where
  "isWriteFile (WriteFile u b) = True"
| "isWriteFile e = False"

fun isNewGist :: "('uri, 'bytes) effect \<Rightarrow> bool" where
  "isNewGist (NewGist fs p d n) = True"
| "isNewGist e = False"

fun isReadFile :: "('uri, 'bytes) effect \<Rightarrow> bool" where
  "isReadFile (ReadFile u) = True"
| "isReadFile e = False"

fun isShowQuickPickFiles :: "('uri, 'bytes) effect \<Rightarrow> bool" where
  "isShowQuickPickFiles (ShowQuickPickFiles xs) = True"
| "isShowQuickPickFiles e = False"

section \<open>promptForGistSelection\<close>

definition CREATE_PUBLIC_GIST_ITEM :: string where
  "CREATE_PUBLIC_GIST_ITEM = ''$(gist-new) Create new public Gist...''"

definition CREATE_SECRET_GIST_ITEM :: string where
  "CREATE_SECRET_GIST_ITEM = ''$(gist-private) Create new secret Gist...''"

definition CREATE_GIST_ITEMS :: "GistQuickPickItem list" where
  "CREATE_GIST_ITEMS =
     [\<lparr>label = CREATE_PUBLIC_GIST_ITEM, description = None, item_id = None,
        alwaysShow = Some True\<rparr>,
      \<lparr>label = CREATE_SECRET_GIST_ITEM, description = None, item_id = None,
        alwaysShow = Some True\<rparr>]"

text \<open>
  \<^verbatim>\<open>arr.unshift(...items)\<close> puts the items, in their order, in front of the
  array.
\<close>

definition unshift :: "'a list \<Rightarrow> 'a list \<Rightarrow> 'a list" where
  "unshift arr items = items @ arr"

text \<open>The callback of \<^verbatim>\<open>store.gists.map\<close>, lines 58 to 64.\<close>

definition gistItem :: "('uri, 'bytes) utils \<Rightarrow> Gist \<Rightarrow> GistQuickPickItem" where
  "gistItem U gist =
     \<lparr>label = getGistLabel U gist,
      description = Some (getGistDescription U gist),
      item_id = Some (gist_id gist),
      alwaysShow = None\<rparr>"

text \<open>The value of \<^verbatim>\<open>list.items\<close>, lines 58 to 70.\<close>

definition gistItems :: "('uri, 'bytes) utils \<Rightarrow> Gist list \<Rightarrow> GistQuickPickItem list" where
  "gistItems U gists = unshift (map (gistItem U) gists) CREATE_GIST_ITEMS"

text \<open>
  \<^verbatim>\<open>if (gist.id)\<close> tests the truthiness of a value that is a string or
  \<^verbatim>\<open>undefined\<close>: \<^verbatim>\<open>undefined\<close> and the empty string are falsy.
\<close>

fun truthy_string :: "string option \<Rightarrow> bool" where
  "truthy_string None = False"
| "truthy_string (Some s) = (s \<noteq> [])"

text \<open>
  \<^verbatim>\<open>newGistWithFiles\<close>, lines 44 to 55. The answer of the input box is a
  parameter: \<open>None\<close> is \<^verbatim>\<open>undefined\<close>, the box dismissed. The answer is not
  inspected; it is passed to \<^verbatim>\<open>newGist\<close> as it is.
\<close>

definition newGistWithFiles ::
  "bool \<Rightarrow> GistFile list \<Rightarrow> string option \<Rightarrow> ('uri, 'bytes) effect list" where
  "newGistWithFiles isPublic fs answer =
     (let description = answer
      in [ShowInputBox ''Enter an optional description for the new Gist'',
          WithProgress ''Creating Gist...'',
          NewGist fs isPublic description False])"

text \<open>
  What the user does with the quick pick: dismiss it, in which case the handler of
  \<^verbatim>\<open>onDidAccept\<close> never runs, or accept it while \<^verbatim>\<open>list.selectedItems\<close>
  holds the given entries.
\<close>

datatype quickpick_event = Dismissed | Accepted "GistQuickPickItem list"

text \<open>
  \<^verbatim>\<open>promptForGistSelection\<close>, lines 57 to 97, with the handler of line 72 run
  on the user's event. The result is the effects issued and the error raised, if any:
  \<^verbatim>\<open>list.selectedItems[0]\<close> of an empty selection is \<^verbatim>\<open>undefined\<close>, and
  reading its \<^verbatim>\<open>id\<close> raises, after \<^verbatim>\<open>list.hide()\<close>.
\<close>

definition promptForGistSelection ::
  "('uri, 'bytes) utils \<Rightarrow> Gist list \<Rightarrow> GistFile list \<Rightarrow> quickpick_event \<Rightarrow> string option
     \<Rightarrow> ('uri, 'bytes) effect list \<times> error option" where
  "promptForGistSelection U gists fs ev answer =
     (let items = gistItems U gists
      in case ev of
           Dismissed \<Rightarrow> ([QuickPickShow items], None)
         | Accepted selectedItems \<Rightarrow>
             (case selectedItems of
                [] \<Rightarrow> ([QuickPickShow items, QuickPickHide], Some TypeError)
              | gist # rest \<Rightarrow>
                  if truthy_string (item_id gist)
                  then ([QuickPickShow items, QuickPickHide,
                         WithProgress ''Adding file(s)...'']
                        @ map (\<lambda>file.
                              WriteFile (fileNameToUri U (the (item_id gist)) (filename file))
                                        (stringToByteArray U (content file))) fs,
                        None)
                  else ([QuickPickShow items, QuickPickHide]
                        @ newGistWithFiles (label gist = CREATE_PUBLIC_GIST_ITEM) fs answer,
                        None)))"

section \<open>The configuration\<close>

text \<open>
  The arrays of the configuration are objects with an identity: they live in a store
  of arrays, and a value refers to one by its address, so that \<^verbatim>\<open>push\<close> on a
  reference changes what every holder of the reference sees.
\<close>

type_synonym addr = nat

text \<open>
  The setting \<^verbatim>\<open>languageMappings\<close>, an object from language ids to arrays of
  extensions, and the arrays themselves.
\<close>

record world =
  languageMappings :: "(string \<times> addr) list"
  arrays :: "addr \<Rightarrow> string list"

text \<open>
  Modelled from the spec: the function \<^verbatim>\<open>get\<close> of the module \<^verbatim>\<open>../config\<close>
  that editor.ts imports at line 12, which is not among the given sources (the
  \<^verbatim>\<open>get\<close> of src/config/config.ts is another function: it is asynchronous and is
  declared for the keys \<^verbatim>\<open>pasteScreenshotOutput\<close>,
  \<^verbatim>\<open>pasteScreenshotType\<close> and \<^verbatim>\<open>apiUrl\<close> only). The spec gives it as
  \<^verbatim>\<open>config.get("languageMappings") -> LanguageExtensionMap\<close>, externally
  configured: the call returns the configured map, at once, and the arrays in the map
  are the configured arrays, not copies of them. The commands pass no other key.
\<close>

definition config_get :: "world \<Rightarrow> string \<Rightarrow> (string \<times> addr) list" where
  "config_get w key = languageMappings w"

text \<open>
  The values that \<^verbatim>\<open>allowedExtensions\<close> can hold: \<^verbatim>\<open>undefined\<close>,
  \<^verbatim>\<open>null\<close>, a reference to an array of strings, or a member that an object
  inherits from its prototype (a built-in function, or the prototype itself for
  \<^verbatim>\<open>__proto__\<close>).
\<close>

datatype js_value = JUndefined | JNull | JArray addr | JInherited string

text \<open>
  Reading \<^verbatim>\<open>object[key]\<close> of an ordinary object finds the object's own property
  of that name; when there is none it finds what \<^verbatim>\<open>Object.prototype\<close> defines
  under that name, and is \<^verbatim>\<open>undefined\<close> for every other key.
\<close>

definition object_members :: "string list" where
  "object_members =
     [''constructor'', ''hasOwnProperty'', ''isPrototypeOf'', ''propertyIsEnumerable'',
      ''toLocaleString'', ''toString'', ''valueOf'', ''__proto__'',
      ''__defineGetter__'', ''__defineSetter__'', ''__lookupGetter__'',
      ''__lookupSetter__'']"

definition object_member :: "(string \<times> addr) list \<Rightarrow> string \<Rightarrow> js_value" where
  "object_member obj key =
     (case map_of obj key of
        Some a \<Rightarrow> JArray a
      | None \<Rightarrow> if key \<in> set object_members then JInherited key else JUndefined)"

fun truthy :: "js_value \<Rightarrow> bool" where
  "truthy JUndefined = False"
| "truthy JNull = False"
| "truthy (JArray a) = True"
| "truthy (JInherited k) = True"

definition js_or :: "js_value \<Rightarrow> js_value \<Rightarrow> js_value" where
  "js_or a b = (if truthy a then a else b)"

section \<open>pasteGistFile\<close>

text \<open>The callback of \<^verbatim>\<open>store.gists.map\<close>, lines 175 to 180.\<close>

definition pasteItem :: "('uri, 'bytes) utils \<Rightarrow> Gist \<Rightarrow> PasteQuickPickItem" where
  "pasteItem U gist =
     \<lparr>paste_label = getGistLabel U gist,
      paste_description = getGistDescription U gist,
      paste_id = gist_id gist,
      paste_files = Object_keys (files gist)\<rparr>"

text \<open>Line 190: the lookup in what \<^verbatim>\<open>config.get\<close> returns, then \<^verbatim>\<open>|| null\<close>.\<close>

definition allowedExtensions :: "world \<Rightarrow> string \<Rightarrow> js_value" where
  "allowedExtensions w detectedLanguage =
     js_or (object_member (config_get w ''languageMappings'') detectedLanguage) JNull"

text \<open>
  Lines 190 to 206, the value of \<^verbatim>\<open>gistItemsFiltered\<close> together with the world
  after it. When \<^verbatim>\<open>allowedExtensions\<close> is not \<^verbatim>\<open>null\<close>, line 197 runs
  first: on an array it appends, in place, every element with \<^verbatim>\<open>_\<close> added, and
  the filter of line 201 then reads the array so changed; on any other value
  \<^verbatim>\<open>allowedExtensions.map\<close> is not a function and the call raises, before any
  Gist is filtered.
\<close>

definition gistItemsFiltered ::
  "('uri, 'bytes) utils \<Rightarrow> world \<Rightarrow> string \<Rightarrow> Gist list
     \<Rightarrow> (error + PasteQuickPickItem list) \<times> world" where
  "gistItemsFiltered U w detectedLanguage gists =
     (let items = map (pasteItem U) gists
      in case allowedExtensions w detectedLanguage of
           JNull \<Rightarrow> (Inr (filter (\<lambda>gist. True) items), w)
         | JArray a \<Rightarrow>
             (let xs = arrays w a;
                  w' = w\<lparr>arrays := (arrays w)(a := xs @ map (\<lambda>fileExtension. fileExtension @ ''_'') xs)\<rparr>
              in (Inr (filter (\<lambda>gist. list_ex (\<lambda>file. getFileExtension U file \<in> set (arrays w' a))
                                            (paste_files gist)) items),
                  w'))
         | JUndefined \<Rightarrow> (Inl TypeError, w)
         | JInherited k \<Rightarrow> (Inl TypeError, w))"

text \<open>Lines 234 to 239: read the chosen file and insert its text.\<close>

definition readAndInsert ::
  "('uri, 'bytes) utils \<Rightarrow> ('uri \<Rightarrow> 'bytes option) \<Rightarrow> Gist \<Rightarrow> string
     \<Rightarrow> ('uri, 'bytes) effect list \<times> error option" where
  "readAndInsert U readFile gist selectedFile =
     (let uri = fileNameToUri U (gist_id gist) selectedFile
      in case readFile uri of
           None \<Rightarrow> ([ReadFile uri], Some FileSystemError)
         | Some bytes \<Rightarrow> ([ReadFile uri, EditInsert (byteArrayToString U bytes)], None))"

text \<open>
  Lines 216 to 239, once a Gist entry is selected. \<^verbatim>\<open>pickFile\<close> is the user's
  answer to the second quick pick (\<open>None\<close> when dismissed) and \<^verbatim>\<open>readFile\<close>
  the virtual file system (\<open>None\<close> when the read is rejected). \<^verbatim>\<open>gists.find\<close>
  returns the first Gist of the store with the selected id; were there none,
  \<^verbatim>\<open>gist!.files\<close> would raise. \<^verbatim>\<open>if (!selectedFile)\<close> also returns on
  the empty string.
\<close>

definition pasteSelectedGist ::
  "('uri, 'bytes) utils \<Rightarrow> Gist list \<Rightarrow> PasteQuickPickItem \<Rightarrow> (string list \<Rightarrow> string option)
     \<Rightarrow> ('uri \<Rightarrow> 'bytes option) \<Rightarrow> ('uri, 'bytes) effect list \<times> error option" where
  "pasteSelectedGist U gists selectedGist pickFile readFile =
     (case find (\<lambda>gist. gist_id gist = paste_id selectedGist) gists of
        None \<Rightarrow> ([], Some TypeError)
      | Some gist \<Rightarrow>
          (let fileItems = map (decodeDirectoryName U) (Object_keys (files gist))
           in if length fileItems = 1
              then readAndInsert U readFile gist (fileItems ! 0)
              else (case pickFile fileItems of
                      None \<Rightarrow> ([ShowQuickPickFiles fileItems], None)
                    | Some selectedFile \<Rightarrow>
                        if selectedFile = [] then ([ShowQuickPickFiles fileItems], None)
                        else (ShowQuickPickFiles fileItems
                                # fst (readAndInsert U readFile gist selectedFile),
                              snd (readAndInsert U readFile gist selectedFile)))))"

text \<open>
  The command \<^verbatim>\<open>pasteGistFile\<close>, lines 174 to 239, after
  \<^verbatim>\<open>ensureAuthenticated\<close>. \<^verbatim>\<open>pickGist\<close> is the user's answer to the first
  quick pick. The lines written to the output channel are left out.
\<close>

definition pasteGistFile ::
  "('uri, 'bytes) utils \<Rightarrow> world \<Rightarrow> Gist list \<Rightarrow> string
     \<Rightarrow> (PasteQuickPickItem list \<Rightarrow> PasteQuickPickItem option)
     \<Rightarrow> (string list \<Rightarrow> string option) \<Rightarrow> ('uri \<Rightarrow> 'bytes option)
     \<Rightarrow> (('uri, 'bytes) effect list \<times> error option) \<times> world" where
  "pasteGistFile U w gists detectedLanguage pickGist pickFile readFile =
     (case gistItemsFiltered U w detectedLanguage gists of
        (Inl e, w') \<Rightarrow> (([], Some e), w')
      | (Inr shown, w') \<Rightarrow>
          (case pickGist shown of
             None \<Rightarrow> (([ShowQuickPickGists shown], None), w')
           | Some selectedGist \<Rightarrow>
               ((ShowQuickPickGists shown
                   # fst (pasteSelectedGist U gists selectedGist pickFile readFile),
                 snd (pasteSelectedGist U gists selectedGist pickFile readFile)),
                w')))"

section \<open>Concrete inputs\<close>

text \<open>
  An instance of the helpers, for evaluating the commands at concrete inputs: a Uri is
  the pair of Gist id and file name, a byte array is the string it encodes, names
  decode to themselves, and the extension of a name is its text from the last dot on.
\<close>

definition extension_of :: "string \<Rightarrow> string" where
  "extension_of name =
     (if CHR ''.'' \<in> set name
      then CHR ''.'' # rev (takeWhile (\<lambda>c. c \<noteq> CHR ''.'') (rev name))
      else [])"

definition example_utils :: "(string \<times> string, string) utils" where
  "example_utils =
     \<lparr>getGistLabel = (\<lambda>g. ''gist '' @ gist_id g),
      getGistDescription = (\<lambda>g. []),
      fileNameToUri = (\<lambda>i n. (i, n)),
      stringToByteArray = (\<lambda>s. s),
      byteArrayToString = (\<lambda>b. b),
      decodeDirectoryName = (\<lambda>n. n),
      getFileExtension = extension_of\<rparr>"

text \<open>The configuration \<^verbatim>\<open>{ "python": [".py"] }\<close>, its array at address 0.\<close>

definition python_world :: world where
  "python_world =
     \<lparr>languageMappings = [(''python'', 0)],
      arrays = (\<lambda>a. [])(0 := [''.py''])\<rparr>"

text \<open>The same configuration with the key \<^verbatim>\<open>constructor\<close> configured too.\<close>

definition constructor_world :: world where
  "constructor_world =
     \<lparr>languageMappings = [(''python'', 0), (''constructor'', 1)],
      arrays = (\<lambda>a. [])(0 := [''.py''], 1 := [''.txt''])\<rparr>"

definition file_a :: GistFile where
  "file_a = \<lparr>filename = ''a.txt'', content = ''alpha''\<rparr>"

definition file_b :: GistFile where
  "file_b = \<lparr>filename = ''b.txt'', content = ''beta''\<rparr>"

definition gist_py_underscore :: Gist where
  "gist_py_underscore =
     \<lparr>gist_id = ''g1'', files = [(''notes.py_'', \<lparr>filename = ''notes.py_'', content = ''x''\<rparr>)]\<rparr>"

definition gist_txt :: Gist where
  "gist_txt =
     \<lparr>gist_id = ''g2'', files = [(''notes.txt'', \<lparr>filename = ''notes.txt'', content = ''y''\<rparr>)]\<rparr>"

definition gist_two_files :: Gist where
  "gist_two_files =
     \<lparr>gist_id = ''g3'', files = [(''a.txt'', file_a), (''b.txt'', file_b)]\<rparr>"

definition gist_empty_id :: Gist where
  "gist_empty_id = \<lparr>gist_id = [], files = [(''a.txt'', file_a)]\<rparr>"


section \<open>The order of the selection list\<close>

text \<open>
  C9. The selection list of \<^verbatim>\<open>promptForGistSelection\<close> is the public create-new
  entry, then the secret create-new entry, both without an id, then one entry for each
  Gist of the store, in the order of the store.
\<close>

theorem gistItems_order:
  "gistItems U gists =
     \<lparr>label = CREATE_PUBLIC_GIST_ITEM, description = None, item_id = None,
       alwaysShow = Some True\<rparr>
     # \<lparr>label = CREATE_SECRET_GIST_ITEM, description = None, item_id = None,
         alwaysShow = Some True\<rparr>
     # map (gistItem U) gists
   \<and> length (gistItems U gists) = 2 + length gists
   \<and> map item_id (drop 2 (gistItems U gists)) = map (\<lambda>g. Some (gist_id g)) gists
   \<and> fst (promptForGistSelection U gists fs ev answer) ! 0 = QuickPickShow (gistItems U gists)"
  by (simp add: gistItems_def unshift_def CREATE_GIST_ITEMS_def gistItem_def
      promptForGistSelection_def Let_def o_def split: quickpick_event.split list.split)

section \<open>Creating a Gist, appending to a Gist, dismissing the list\<close>

text \<open>
  C2. Accepting the public create-new entry issues one \<^verbatim>\<open>newGist\<close> call with
  \<^verbatim>\<open>isPublic\<close> true, accepting the secret one issues one with \<^verbatim>\<open>isPublic\<close>
  false; both calls carry the candidate files, the answer of the description box and
  \<^verbatim>\<open>false\<close> as fourth argument, and no file is written. This holds for every
  batch, empty or not.
\<close>

theorem create_sentinels_visibility:
  "promptForGistSelection U gists fs (Accepted (CREATE_GIST_ITEMS ! 0 # rest)) answer
     = ([QuickPickShow (gistItems U gists), QuickPickHide,
         ShowInputBox ''Enter an optional description for the new Gist'',
         WithProgress ''Creating Gist...'',
         NewGist fs True answer False], None)
   \<and> promptForGistSelection U gists fs (Accepted (CREATE_GIST_ITEMS ! 1 # rest)) answer
     = ([QuickPickShow (gistItems U gists), QuickPickHide,
         ShowInputBox ''Enter an optional description for the new Gist'',
         WithProgress ''Creating Gist...'',
         NewGist fs False answer False], None)"
  by (simp add: promptForGistSelection_def Let_def CREATE_GIST_ITEMS_def newGistWithFiles_def
      CREATE_PUBLIC_GIST_ITEM_def CREATE_SECRET_GIST_ITEM_def)

text \<open>
  C7. When the list is dismissed, the only effect is that the list was shown: no
  \<^verbatim>\<open>newGist\<close> call, no write and no error, whatever the batch.
\<close>

theorem dismissed_issues_nothing:
  "promptForGistSelection U gists fs Dismissed answer = ([QuickPickShow (gistItems U gists)], None)
   \<and> filter isNewGist (fst (promptForGistSelection U gists fs Dismissed answer)) = []
   \<and> filter isWriteFile (fst (promptForGistSelection U gists fs Dismissed answer)) = []
   \<and> snd (promptForGistSelection U gists fs Dismissed answer) = None"
  by (simp add: promptForGistSelection_def Let_def)

text \<open>
  C1, as amended. When the accepted entry has an id that is a non-empty string, the
  writes issued are exactly one per candidate file, in the order of the batch, each to
  \<^verbatim>\<open>fileNameToUri(id, file.filename)\<close> with
  \<^verbatim>\<open>stringToByteArray(file.content)\<close> as payload; no Gist is created and no error
  is raised.
\<close>

theorem append_writes_one_per_file:
  "item_id gist = Some i \<Longrightarrow> i \<noteq> [] \<Longrightarrow>
   filter isWriteFile (fst (promptForGistSelection U gists fs (Accepted (gist # rest)) answer))
     = map (\<lambda>file. WriteFile (fileNameToUri U i (filename file))
                               (stringToByteArray U (content file))) fs
   \<and> length (filter isWriteFile
        (fst (promptForGistSelection U gists fs (Accepted (gist # rest)) answer))) = length fs
   \<and> filter isNewGist (fst (promptForGistSelection U gists fs (Accepted (gist # rest)) answer)) = []
   \<and> snd (promptForGistSelection U gists fs (Accepted (gist # rest)) answer) = None"
  by (simp add: promptForGistSelection_def Let_def filter_map o_def)

theorem append_writes_one_per_file_witness:
  "item_id (gistItem example_utils gist_txt) = Some ''g2'' \<and> ''g2'' \<noteq> []
   \<and> filter isWriteFile (fst (promptForGistSelection example_utils [gist_txt] [file_a, file_b]
        (Accepted [gistItem example_utils gist_txt]) None))
      = [WriteFile (''g2'', ''a.txt'') ''alpha'', WriteFile (''g2'', ''b.txt'') ''beta'']"
proof -
  have h: "item_id (gistItem example_utils gist_txt) = Some ''g2''"
    by (simp add: gistItem_def gist_txt_def)
  have n: "''g2'' \<noteq> []"
    by simp
  from append_writes_one_per_file [OF h n, of example_utils "[gist_txt]" "[file_a, file_b]" "[]" None]
  show ?thesis
    using h by (simp add: example_utils_def file_a_def file_b_def)
qed

text \<open>
  The claim C1 as it is written, for every entry whose id is present, fails at the
  entry of a Gist whose id is the empty string: the id is present, one file is in the
  batch, and no write is issued.
\<close>

theorem append_empty_id_counterexample:
  "item_id (gistItem example_utils gist_empty_id) = Some []
   \<and> length (filter isWriteFile (fst (promptForGistSelection example_utils [gist_empty_id]
        [file_a] (Accepted [gistItem example_utils gist_empty_id]) None))) \<noteq> length [file_a]"
  by (simp add: promptForGistSelection_def Let_def gistItem_def gist_empty_id_def
      newGistWithFiles_def)



section \<open>The filter of pasteGistFile\<close>

text \<open>
  The lookup of line 190 yields the configured array of a language that has an entry,
  and \<^verbatim>\<open>null\<close> for a key that is neither configured nor inherited.
\<close>

lemma allowedExtensions_entry:
  "map_of (languageMappings w) l = Some a \<Longrightarrow> allowedExtensions w l = JArray a"
  by (simp add: allowedExtensions_def config_get_def object_member_def js_or_def)

lemma allowedExtensions_no_entry:
  "map_of (languageMappings w) l = None \<Longrightarrow> l \<notin> set object_members
     \<Longrightarrow> allowedExtensions w l = JNull"
  by (simp add: allowedExtensions_def config_get_def object_member_def js_or_def)

lemma allowedExtensions_inherited:
  "map_of (languageMappings w) l = None \<Longrightarrow> l \<in> set object_members
     \<Longrightarrow> allowedExtensions w l = JInherited l"
  by (simp add: allowedExtensions_def config_get_def object_member_def js_or_def)

lemma python_entry: "map_of (languageMappings python_world) ''python'' = Some 0"
  by (simp add: python_world_def)

lemma python_array: "arrays python_world 0 = [''.py'']"
  by (simp add: python_world_def)

text \<open>The filter on \<^verbatim>\<open>python\<close> and the configuration \<^verbatim>\<open>{ "python": [".py"] }\<close>.\<close>

lemma gistItemsFiltered_python:
  "gistItemsFiltered U python_world ''python'' gists =
     (Inr (filter (\<lambda>gist. list_ex (\<lambda>file. getFileExtension U file \<in> {''.py'', ''.py_''})
                                    (paste_files gist))
                  (map (pasteItem U) gists)),
      python_world\<lparr>arrays := (arrays python_world)(0 := [''.py'', ''.py_''])\<rparr>)"
  by (simp add: gistItemsFiltered_def allowedExtensions_entry [OF python_entry] python_array
      Let_def insert_commute)

text \<open>
  C3. With the configuration \<^verbatim>\<open>{ "python": [".py"] }\<close> and the language
  \<^verbatim>\<open>python\<close>, where \<^verbatim>\<open>getFileExtension\<close> gives \<^verbatim>\<open>.py_\<close> for
  \<^verbatim>\<open>notes.py_\<close> and \<^verbatim>\<open>.txt\<close> for \<^verbatim>\<open>notes.txt\<close>: the Gist whose
  only file is \<^verbatim>\<open>notes.py_\<close> passes the filter and the Gist whose only file is
  \<^verbatim>\<open>notes.txt\<close> does not. The extension \<^verbatim>\<open>.py_\<close> is not in the
  configured array; it is in the array that the filter reads, after line 197.
\<close>

theorem filter_python_augmented:
  "getFileExtension U ''notes.py_'' = ''.py_'' \<Longrightarrow> getFileExtension U ''notes.txt'' = ''.txt'' \<Longrightarrow>
   fst (gistItemsFiltered U python_world ''python'' [gist_py_underscore])
     = Inr [pasteItem U gist_py_underscore]
   \<and> fst (gistItemsFiltered U python_world ''python'' [gist_txt]) = Inr []
   \<and> ''.py_'' \<notin> set (arrays python_world 0)
   \<and> arrays (snd (gistItemsFiltered U python_world ''python'' [gist_py_underscore])) 0
       = [''.py'', ''.py_'']"
  by (simp add: gistItemsFiltered_python python_array pasteItem_def Object_keys_def
      gist_py_underscore_def gist_txt_def)

theorem filter_python_augmented_witness:
  "getFileExtension example_utils ''notes.py_'' = ''.py_''
   \<and> getFileExtension example_utils ''notes.txt'' = ''.txt''
   \<and> fst (gistItemsFiltered example_utils python_world ''python'' [gist_py_underscore])
       = Inr [pasteItem example_utils gist_py_underscore]
   \<and> fst (gistItemsFiltered example_utils python_world ''python'' [gist_txt]) = Inr []"
proof -
  have e1: "getFileExtension example_utils ''notes.py_'' = ''.py_''"
    by (simp add: example_utils_def extension_of_def)
  have e2: "getFileExtension example_utils ''notes.txt'' = ''.txt''"
    by (simp add: example_utils_def extension_of_def)
  from filter_python_augmented [OF e1 e2] e1 e2 show ?thesis
    by simp
qed

text \<open>
  C4, as amended. For every configuration and every language id that has no entry in
  the configured map and is not the name of a member that every object inherits,
  \<^verbatim>\<open>allowedExtensions\<close> is \<^verbatim>\<open>null\<close> and the filter returns the entries of
  all Gists of the store, in their order, leaving the configuration as it was.
\<close>

theorem filter_disabled_without_entry:
  "map_of (languageMappings w) detectedLanguage = None \<Longrightarrow>
   detectedLanguage \<notin> set object_members \<Longrightarrow>
   allowedExtensions w detectedLanguage = JNull
   \<and> gistItemsFiltered U w detectedLanguage gists = (Inr (map (pasteItem U) gists), w)"
  by (simp add: gistItemsFiltered_def allowedExtensions_no_entry Let_def)

theorem filter_disabled_without_entry_witness:
  "map_of (languageMappings python_world) ''plaintext'' = None
   \<and> ''plaintext'' \<notin> set object_members
   \<and> allowedExtensions python_world ''plaintext'' = JNull
   \<and> gistItemsFiltered example_utils python_world ''plaintext'' [gist_txt, gist_py_underscore]
      = (Inr (map (pasteItem example_utils) [gist_txt, gist_py_underscore]), python_world)"
proof -
  have h1: "map_of (languageMappings python_world) ''plaintext'' = None"
    by (simp add: python_world_def)
  have h2: "''plaintext'' \<notin> set object_members"
    by (simp add: object_members_def)
  from filter_disabled_without_entry [OF h1 h2, of example_utils "[gist_txt, gist_py_underscore]"]
    h1 h2
  show ?thesis by simp
qed

text \<open>
  The claim C4 as it is written, for every language id and every configured map, fails
  at the language \<^verbatim>\<open>python\<close> with the map \<^verbatim>\<open>{ "python": [".py"] }\<close>:
  \<^verbatim>\<open>allowedExtensions\<close> is the configured array, not \<^verbatim>\<open>null\<close>, and the Gist
  whose only file is \<^verbatim>\<open>notes.txt\<close> is filtered out.
\<close>

theorem filter_python_counterexample:
  "allowedExtensions python_world ''python'' \<noteq> JNull
   \<and> fst (gistItemsFiltered example_utils python_world ''python'' [gist_txt])
       \<noteq> Inr (map (pasteItem example_utils) [gist_txt])"
  by (simp add: gistItemsFiltered_python allowedExtensions_entry [OF python_entry]
      pasteItem_def Object_keys_def gist_txt_def example_utils_def extension_of_def)

text \<open>
  C5. The language id \<^verbatim>\<open>constructor\<close> is absent from the configured map
  \<^verbatim>\<open>{ "python": [".py"] }\<close>, and the lookup of line 190 finds the inherited
  member of that name: line 197 raises, and the command ends with a TypeError before
  any list is shown, where the claim says that every Gist passes. The absence decides:
  with \<^verbatim>\<open>constructor\<close> configured, the lookup finds the configured array and
  nothing is raised.
\<close>

theorem filter_constructor_raises:
  "map_of (languageMappings python_world) ''constructor'' = None
   \<and> allowedExtensions python_world ''constructor'' = JInherited ''constructor''
   \<and> gistItemsFiltered U python_world ''constructor'' [gist_txt] = (Inl TypeError, python_world)
   \<and> pasteGistFile U python_world [gist_txt] ''constructor'' pickGist pickFile readFile
       = (([], Some TypeError), python_world)
   \<and> map_of (languageMappings constructor_world) ''constructor'' = Some 1
   \<and> allowedExtensions constructor_world ''constructor'' = JArray 1
   \<and> fst (gistItemsFiltered example_utils constructor_world ''constructor'' [gist_txt])
       = Inr [pasteItem example_utils gist_txt]"
proof -
  have a: "map_of (languageMappings python_world) ''constructor'' = None"
    by (simp add: python_world_def)
  have m: "''constructor'' \<in> set object_members"
    by (simp add: object_members_def)
  have b: "allowedExtensions python_world ''constructor'' = JInherited ''constructor''"
    by (rule allowedExtensions_inherited [OF a m])
  have c: "gistItemsFiltered U python_world ''constructor'' [gist_txt]
             = (Inl TypeError, python_world)"
    by (simp add: gistItemsFiltered_def b Let_def)
  have d: "pasteGistFile U python_world [gist_txt] ''constructor'' pickGist pickFile readFile
             = (([], Some TypeError), python_world)"
    by (simp add: pasteGistFile_def c)
  have e: "map_of (languageMappings constructor_world) ''constructor'' = Some 1"
    by (simp add: constructor_world_def)
  have f: "allowedExtensions constructor_world ''constructor'' = JArray 1"
    by (rule allowedExtensions_entry [OF e])
  have ar: "arrays constructor_world (Suc 0) = [''.txt'']"
    by (simp add: constructor_world_def)
  have g: "fst (gistItemsFiltered example_utils constructor_world ''constructor'' [gist_txt])
             = Inr [pasteItem example_utils gist_txt]"
    by (simp add: gistItemsFiltered_def f Let_def ar pasteItem_def
        Object_keys_def gist_txt_def example_utils_def extension_of_def)
  from a b c d e f g show ?thesis by simp
qed



section \<open>Choosing the file to paste\<close>

text \<open>
  C8. Let the first quick pick show \<open>shown\<close>, the user select \<open>sel\<close>, and \<open>g\<close> be the
  Gist that \<^verbatim>\<open>gists.find\<close> returns for it. If \<open>g\<close> has exactly one file, no second
  quick pick is shown and the next effect is the read of that file. If \<open>g\<close> has more
  than one file and the user dismisses the second quick pick, the command ends there,
  and no read is issued.
\<close>

theorem paste_file_choice:
  "(gistItemsFiltered U w l gists = (Inr shown, w') \<and> pickGist shown = Some sel
      \<and> find (\<lambda>gist. gist_id gist = paste_id sel) gists = Some g
      \<and> length (files g) = 1
    \<longrightarrow> filter isShowQuickPickFiles
          (fst (fst (pasteGistFile U w gists l pickGist pickFile readFile))) = []
        \<and> fst (fst (pasteGistFile U w gists l pickGist pickFile readFile)) ! 0
            = ShowQuickPickGists shown
        \<and> fst (fst (pasteGistFile U w gists l pickGist pickFile readFile)) ! 1
            = ReadFile (fileNameToUri U (gist_id g) (decodeDirectoryName U (fst (files g ! 0)))))
   \<and> (gistItemsFiltered U w l gists = (Inr shown, w') \<and> pickGist shown = Some sel
      \<and> find (\<lambda>gist. gist_id gist = paste_id sel) gists = Some g
      \<and> 1 < length (files g)
      \<and> pickFile (map (decodeDirectoryName U) (Object_keys (files g))) = None
    \<longrightarrow> fst (pasteGistFile U w gists l pickGist pickFile readFile)
          = ([ShowQuickPickGists shown,
              ShowQuickPickFiles (map (decodeDirectoryName U) (Object_keys (files g)))], None)
        \<and> filter isReadFile
            (fst (fst (pasteGistFile U w gists l pickGist pickFile readFile))) = [])"
  by (auto simp: pasteGistFile_def pasteSelectedGist_def readAndInsert_def Let_def
      Object_keys_def length_Suc_conv split: option.splits)

text \<open>
  The first quick pick of the two runs below shows both Gists: the language
  \<^verbatim>\<open>plaintext\<close> has no entry in the configuration.
\<close>

lemma shown_eq:
  "gistItemsFiltered example_utils python_world ''plaintext'' [gist_txt, gist_two_files]
     = (Inr (map (pasteItem example_utils) [gist_txt, gist_two_files]), python_world)"
  by (simp add: gistItemsFiltered_def allowedExtensions_no_entry python_world_def
      object_members_def Let_def)

theorem paste_file_choice_witness:
  "(find (\<lambda>gist. gist_id gist = paste_id (pasteItem example_utils gist_txt))
       [gist_txt, gist_two_files] = Some gist_txt
    \<and> length (files gist_txt) = 1
    \<and> fst (fst (pasteGistFile example_utils python_world [gist_txt, gist_two_files] ''plaintext''
         (\<lambda>xs. Some (xs ! 0)) (\<lambda>xs. None) (\<lambda>u. Some ''data''))) ! 1
        = ReadFile (''g2'', ''notes.txt''))
   \<and> (find (\<lambda>gist. gist_id gist = paste_id (pasteItem example_utils gist_two_files))
       [gist_txt, gist_two_files] = Some gist_two_files
    \<and> 1 < length (files gist_two_files)
    \<and> filter isReadFile
        (fst (fst (pasteGistFile example_utils python_world [gist_txt, gist_two_files] ''plaintext''
           (\<lambda>xs. Some (xs ! 1)) (\<lambda>xs. None) (\<lambda>u. Some ''data'')))) = [])"
proof -
  let ?gs = "[gist_txt, gist_two_files]"
  let ?shown = "map (pasteItem example_utils) ?gs"
  have f1: "find (\<lambda>gist. gist_id gist = paste_id (pasteItem example_utils gist_txt)) ?gs
              = Some gist_txt"
    by (simp add: pasteItem_def gist_txt_def)
  have f2: "find (\<lambda>gist. gist_id gist = paste_id (pasteItem example_utils gist_two_files)) ?gs
              = Some gist_two_files"
    by (simp add: pasteItem_def gist_txt_def gist_two_files_def)
  have l1: "length (files gist_txt) = 1"
    by (simp add: gist_txt_def)
  have l2: "1 < length (files gist_two_files)"
    by (simp add: gist_two_files_def)
  have p1: "(\<lambda>xs. Some (xs ! 0)) ?shown = Some (pasteItem example_utils gist_txt)"
    by simp
  have p2: "(\<lambda>xs. Some (xs ! 1)) ?shown = Some (pasteItem example_utils gist_two_files)"
    by simp
  have a: "fst (fst (pasteGistFile example_utils python_world ?gs ''plaintext''
         (\<lambda>xs. Some (xs ! 0)) (\<lambda>xs. None) (\<lambda>u. Some ''data''))) ! 1
        = ReadFile (fileNameToUri example_utils (gist_id gist_txt)
            (decodeDirectoryName example_utils (fst (files gist_txt ! 0))))"
    using paste_file_choice [where U = example_utils and w = python_world and l = "''plaintext''"
        and gists = ?gs and shown = ?shown and w' = python_world
        and pickGist = "\<lambda>xs. Some (xs ! 0)" and sel = "pasteItem example_utils gist_txt"
        and g = gist_txt and pickFile = "\<lambda>xs. None" and readFile = "\<lambda>u. Some ''data''"]
      shown_eq f1 l1 p1 by blast
  have b: "filter isReadFile
        (fst (fst (pasteGistFile example_utils python_world ?gs ''plaintext''
           (\<lambda>xs. Some (xs ! 1)) (\<lambda>xs. None) (\<lambda>u. Some ''data'')))) = []"
    using paste_file_choice [where U = example_utils and w = python_world and l = "''plaintext''"
        and gists = ?gs and shown = ?shown and w' = python_world
        and pickGist = "\<lambda>xs. Some (xs ! 1)" and sel = "pasteItem example_utils gist_two_files"
        and g = gist_two_files and pickFile = "\<lambda>xs. None" and readFile = "\<lambda>u. Some ''data''"]
      shown_eq f2 l2 p2 by blast
  from a have a': "fst (fst (pasteGistFile example_utils python_world ?gs ''plaintext''
         (\<lambda>xs. Some (xs ! 0)) (\<lambda>xs. None) (\<lambda>u. Some ''data''))) ! 1
        = ReadFile (''g2'', ''notes.txt'')"
    by (simp add: example_utils_def gist_txt_def)
  from a' b f1 f2 l1 l2 show ?thesis by blast
qed

end
